theory Spec2Isabelle
  imports Complex_Main "HOL-Library.Monad_Syntax"
begin

section \<open>S1Interval: closed intervals on the unit circle (s2/s1interval.cc)\<close>

text \<open>
  A value of the C++ type \<open>double\<close> is modelled as the real number it
  denotes.  Every arithmetic operation of the source (\<open>+\<close>, \<open>-\<close>, \<open>*\<close>
  on doubles) is the exact operation followed by the IEEE 754 binary64
  rounding \<open>rnd\<close> (round to nearest, ties to even, with gradual underflow);
  comparisons and unary minus are exact.  Each expression is evaluated in
  binary64 as written, without extended intermediate precision or fused
  operations.  Overflow, infinities and NaN are outside the model: every
  operand of a valid interval is bounded by \<open>\<pi>\<close>, so no result reaches the
  overflow threshold.

  Debug assertions (\<open>S2_DCHECK\<close>) are branches of the model: a member
  function that carries one returns an \<open>option\<close>, and \<open>None\<close> is the
  failed assertion.
\<close>

subsection \<open>Binary64 arithmetic\<close>

text \<open>The exponent of the binade of \<open>x\<close>, held at the smallest normal
  exponent for subnormal magnitudes.\<close>

definition binade :: "real \<Rightarrow> int" where
  "binade x = max (- 1022) \<lfloor>log 2 \<bar>x\<bar>\<rfloor>"

text \<open>The spacing of binary64 values around \<open>x\<close> (53 significant bits).\<close>

definition ulp :: "real \<Rightarrow> real" where
  "ulp x = 2 powr of_int (binade x - 52)"

definition round_half_even :: "real \<Rightarrow> int" where
  "round_half_even r =
     (let f = \<lfloor>r\<rfloor>; d = r - of_int f in
      if d < 1 / 2 then f
      else if d > 1 / 2 then f + 1
      else if even f then f else f + 1)"

definition rnd :: "real \<Rightarrow> real" where
  "rnd x = (if x = 0 then 0 else of_int (round_half_even (x / ulp x)) * ulp x)"

definition is_double :: "real \<Rightarrow> bool" where
  "is_double v \<longleftrightarrow> rnd v = v \<and> \<bar>v\<bar> < 2 ^ 1024"

definition dadd :: "real \<Rightarrow> real \<Rightarrow> real" where
  "dadd a b = rnd (a + b)"

definition dsub :: "real \<Rightarrow> real \<Rightarrow> real" where
  "dsub a b = rnd (a - b)"

definition dmul :: "real \<Rightarrow> real \<Rightarrow> real" where
  "dmul a b = rnd (a * b)"

subsection \<open>Representation\<close>

text \<open>The constant \<open>M_PI\<close> of \<open><cmath>\<close> is the binary64 value nearest to
  \<open>\<pi>\<close>, \<open>0x400921FB54442D18\<close>; the spec's \<open>\<pi>\<close> is this constant.\<close>

definition M_PI :: real where
  "M_PI = 7074237752028440 / 2 ^ 51"

record S1Interval =
  lo :: real
  hi :: real

text \<open>
  The inline members of \<open>s2/s1interval.h\<close> are not part of the translation
  unit \<open>s1interval.cc\<close>; each is given below as the spec describes it.
\<close>

text \<open>Modelled from the spec: \<open>is_valid\<close> of the absent header.  The
  invariant of the data model is \<open>lo \<in> [-\<pi>, \<pi>]\<close> and \<open>hi \<in> [-\<pi>, \<pi>]\<close>.
  Every theorem below that assumes validity therefore also holds under any
  stricter notion of validity.  That a field is a binary64 value is the
  separate predicate \<open>is_double\<close>, assumed only where the arithmetic needs
  it.\<close>

definition is_valid :: "S1Interval \<Rightarrow> bool" where
  "is_valid x \<longleftrightarrow> \<bar>lo x\<bar> \<le> M_PI \<and> \<bar>hi x\<bar> \<le> M_PI"

text \<open>Modelled from the spec: \<open>is_full\<close> of the absent header, the
  sentinel \<open>lo = -\<pi>, hi = \<pi>\<close>.\<close>

definition is_full :: "S1Interval \<Rightarrow> bool" where
  "is_full x \<longleftrightarrow> lo x = - M_PI \<and> hi x = M_PI"

text \<open>Modelled from the spec: \<open>is_empty\<close> of the absent header, the
  sentinel \<open>lo = \<pi>, hi = -\<pi>\<close>.\<close>

definition is_empty :: "S1Interval \<Rightarrow> bool" where
  "is_empty x \<longleftrightarrow> lo x = M_PI \<and> hi x = - M_PI"

text \<open>Modelled from the spec: \<open>is_inverted\<close> of the absent header, the
  derived property \<open>lo > hi\<close>.\<close>

definition is_inverted :: "S1Interval \<Rightarrow> bool" where
  "is_inverted x \<longleftrightarrow> lo x > hi x"

text \<open>Modelled from the spec: \<open>Empty()\<close> of the absent header.\<close>

definition Empty :: S1Interval where
  "Empty = \<lparr>lo = M_PI, hi = - M_PI\<rparr>"

text \<open>Modelled from the spec: \<open>Full()\<close> of the absent header.\<close>

definition Full :: S1Interval where
  "Full = \<lparr>lo = - M_PI, hi = M_PI\<rparr>"

text \<open>Modelled from the spec: the validating constructor
  \<open>S1Interval(lo, hi)\<close> of the absent header, which canonicalises \<open>-\<pi>\<close> to
  \<open>\<pi>\<close> and asserts the bounds.  An endpoint \<open>-\<pi>\<close> is kept where the
  other endpoint is \<open>\<pi>\<close>, since the two sentinels must stay
  constructible.  The trusted constructor
  \<open>S1Interval(lo, hi, ARGS_CHECKED)\<close> is the record itself.\<close>

definition S1Interval_validated :: "real \<Rightarrow> real \<Rightarrow> S1Interval option" where
  "S1Interval_validated l h =
     (let l' = (if l = - M_PI \<and> h \<noteq> M_PI then M_PI else l);
          h' = (if h = - M_PI \<and> l \<noteq> M_PI then M_PI else h);
          r = \<lparr>lo = l', hi = h'\<rparr>
      in if is_valid r then Some r else None)"

subsection \<open>Operations of s1interval.cc\<close>

definition FromPoint :: "real \<Rightarrow> S1Interval" where
  "FromPoint p = (let p = (if p = - M_PI then M_PI else p) in \<lparr>lo = p, hi = p\<rparr>)"

definition GetCenter :: "S1Interval \<Rightarrow> real" where
  "GetCenter x =
     (let center = dmul 0.5 (dadd (lo x) (hi x)) in
      if \<not> is_inverted x then center
      else if center \<le> 0 then dadd center M_PI else dsub center M_PI)"

definition GetLength :: "S1Interval \<Rightarrow> real" where
  "GetLength x =
     (let length = dsub (hi x) (lo x) in
      if length \<ge> 0 then length
      else let length = dadd length (dmul 2 M_PI) in
           if length > 0 then length else - 1)"

definition Complement :: "S1Interval \<Rightarrow> S1Interval" where
  "Complement x = (if lo x = hi x then Full else \<lparr>lo = hi x, hi = lo x\<rparr>)"

definition GetComplementCenter :: "S1Interval \<Rightarrow> real" where
  "GetComplementCenter x =
     (if lo x \<noteq> hi x then GetCenter (Complement x)
      else if hi x \<le> 0 then dadd (hi x) M_PI else dsub (hi x) M_PI)"

definition FastContains :: "S1Interval \<Rightarrow> real \<Rightarrow> bool" where
  "FastContains x p =
     (if is_inverted x then (p \<ge> lo x \<or> p \<le> hi x) \<and> \<not> is_empty x
      else p \<ge> lo x \<and> p \<le> hi x)"

text \<open>\<open>Contains(double)\<close>: the assertion \<open>fabs(p) <= M_PI\<close>, then the
  canonicalisation of \<open>-\<pi>\<close>.\<close>

definition Contains_point :: "S1Interval \<Rightarrow> real \<Rightarrow> bool option" where
  "Contains_point x p =
     (if \<not> \<bar>p\<bar> \<le> M_PI then None
      else let p = (if p = - M_PI then M_PI else p) in Some (FastContains x p))"

text \<open>\<open>Contains(const S1Interval&)\<close>.\<close>

definition Contains :: "S1Interval \<Rightarrow> S1Interval \<Rightarrow> bool" where
  "Contains x y =
     (if is_inverted x then
        (if is_inverted y then lo y \<ge> lo x \<and> hi y \<le> hi x
         else (lo y \<ge> lo x \<or> hi y \<le> hi x) \<and> \<not> is_empty x)
      else
        (if is_inverted y then is_full x \<or> is_empty y
         else lo y \<ge> lo x \<and> hi y \<le> hi x))"

definition Intersects :: "S1Interval \<Rightarrow> S1Interval \<Rightarrow> bool" where
  "Intersects x y =
     (if is_empty x \<or> is_empty y then False
      else if is_inverted x then
        is_inverted y \<or> lo y \<le> hi x \<or> hi y \<ge> lo x
      else
        (if is_inverted y then lo y \<le> hi x \<or> hi y \<ge> lo x
         else lo y \<le> hi x \<and> hi y \<ge> lo x))"

definition PositiveDistance :: "real \<Rightarrow> real \<Rightarrow> real" where
  "PositiveDistance a b =
     (let d = dsub b a in
      if d \<ge> 0 then d else dsub (dadd b M_PI) (dsub a M_PI))"

definition GetDirectedHausdorffDistance :: "S1Interval \<Rightarrow> S1Interval \<Rightarrow> real option" where
  "GetDirectedHausdorffDistance x y =
     (if Contains y x then Some 0
      else if is_empty y then Some M_PI
      else
        let y_complement_center = GetComplementCenter y in
        do {
          c \<leftarrow> Contains_point x y_complement_center;
          if c then Some (PositiveDistance (hi y) y_complement_center)
          else do {
            a \<leftarrow> S1Interval_validated (hi y) y_complement_center;
            ca \<leftarrow> Contains_point a (hi x);
            let hi_hi = (if ca then PositiveDistance (hi y) (hi x) else 0);
            b \<leftarrow> S1Interval_validated y_complement_center (lo y);
            cb \<leftarrow> Contains_point b (lo x);
            let lo_lo = (if cb then PositiveDistance (lo x) (lo y) else 0);
            if hi_hi > 0 \<or> lo_lo > 0 then Some (max hi_hi lo_lo) else None
          }
        })"

text \<open>\<open>AddPoint\<close> mutates the receiver; the model returns the new value.\<close>

definition AddPoint :: "S1Interval \<Rightarrow> real \<Rightarrow> S1Interval option" where
  "AddPoint x p =
     (if \<not> \<bar>p\<bar> \<le> M_PI then None
      else
        let p = (if p = - M_PI then M_PI else p) in
        if FastContains x p then Some x
        else if is_empty x then Some ((x\<lparr>hi := p\<rparr>)\<lparr>lo := p\<rparr>)
        else
          let dlo = PositiveDistance p (lo x);
              dhi = PositiveDistance (hi x) p
          in if dlo < dhi then Some (x\<lparr>lo := p\<rparr>) else Some (x\<lparr>hi := p\<rparr>))"

definition Project :: "S1Interval \<Rightarrow> real \<Rightarrow> real option" where
  "Project x p =
     (if is_empty x then None
      else if \<not> \<bar>p\<bar> \<le> M_PI then None
      else
        let p = (if p = - M_PI then M_PI else p) in
        if FastContains x p then Some p
        else
          let dlo = PositiveDistance p (lo x);
              dhi = PositiveDistance (hi x) p
          in Some (if dlo < dhi then lo x else hi x))"

definition Union_interval :: "S1Interval \<Rightarrow> S1Interval \<Rightarrow> S1Interval" where
  "Union_interval x y =
     (if is_empty y then x
      else if FastContains x (lo y) then
        (if FastContains x (hi y) then
           (if Contains x y then x else Full)
         else \<lparr>lo = lo x, hi = hi y\<rparr>)
      else if FastContains x (hi y) then \<lparr>lo = lo y, hi = hi x\<rparr>
      else if is_empty x \<or> FastContains y (lo x) then y
      else
        let dlo = PositiveDistance (hi y) (lo x);
            dhi = PositiveDistance (hi x) (lo y)
        in if dlo < dhi then \<lparr>lo = lo y, hi = hi x\<rparr>
           else \<lparr>lo = lo x, hi = hi y\<rparr>)"



section \<open>Verification\<close>

subsection \<open>Facts about binary64 rounding\<close>

lemma ulp_pos: "0 < ulp x"
  by (simp add: ulp_def)

lemma binade_eqI:
  assumes "2 powr of_int e \<le> \<bar>x\<bar>" and "\<bar>x\<bar> < 2 powr of_int (e + 1)" and "- 1022 \<le> e"
  shows "binade x = e"
proof -
  have "0 < \<bar>x\<bar>"
    using assms(1) powr_gt_zero [of 2 "of_int e"] by linarith
  then have "\<lfloor>log 2 \<bar>x\<bar>\<rfloor> = e"
    using assms(1,2) by (simp add: floor_log_eq_powr_iff)
  with assms(3) show ?thesis
    by (simp add: binade_def)
qed

text \<open>Rounding a value whose binade is known: the form used to evaluate
  \<open>rnd\<close> at a literal.\<close>

lemma rnd_binade:
  assumes "2 powr of_int e \<le> \<bar>x\<bar>" and "\<bar>x\<bar> < 2 powr of_int (e + 1)" and "- 1022 \<le> e"
  shows "rnd x = of_int (round_half_even (x / 2 powr of_int (e - 52))) * 2 powr of_int (e - 52)"
proof -
  have "x \<noteq> 0"
    using assms(1) powr_gt_zero [of 2 "of_int e"] by auto
  then show ?thesis
    using binade_eqI [OF assms] by (simp add: rnd_def ulp_def)
qed

lemmas rnd_eval_simps = powr_neg_numeral round_half_even_def Let_def

lemma round_half_even_nonneg: "0 \<le> r \<Longrightarrow> 0 \<le> round_half_even r"
  by (auto simp: round_half_even_def Let_def)

lemma round_half_even_pos:
  assumes "1 \<le> r"
  shows "1 \<le> round_half_even r"
proof -
  from assms have "1 \<le> \<lfloor>r\<rfloor>"
    by (simp add: le_floor_iff)
  then show ?thesis
    by (auto simp: round_half_even_def Let_def)
qed

lemma round_half_even_neg:
  assumes "r \<le> - 1"
  shows "round_half_even r \<le> - 1"
proof -
  from assms have f: "\<lfloor>r\<rfloor> \<le> - 1"
    by (simp add: floor_le_iff)
  have "\<lfloor>r\<rfloor> \<le> - 2" if a: "r - of_int \<lfloor>r\<rfloor> \<ge> 1 / 2"
  proof (rule ccontr)
    assume "\<not> \<lfloor>r\<rfloor> \<le> - 2"
    with f have "\<lfloor>r\<rfloor> = - 1"
      by linarith
    with a assms show False
      by simp
  qed
  with f show ?thesis
    by (auto simp: round_half_even_def Let_def)
qed

lemma rnd_0 [simp]: "rnd 0 = 0"
  by (simp add: rnd_def)

lemma rnd_nonneg: "0 \<le> x \<Longrightarrow> 0 \<le> rnd x"
  using ulp_pos [of x] by (simp add: rnd_def round_half_even_nonneg)

lemma quot_ulp_ge_1:
  assumes "2 powr (- 1074) \<le> \<bar>x\<bar>"
  shows "1 \<le> \<bar>x\<bar> / ulp x"
proof (cases "- 1022 \<le> \<lfloor>log 2 \<bar>x\<bar>\<rfloor>")
  case True
  have pos: "0 < \<bar>x\<bar>"
    using assms powr_gt_zero [of 2 "- 1074"] by linarith
  from True have b: "binade x = \<lfloor>log 2 \<bar>x\<bar>\<rfloor>"
    by (simp add: binade_def)
  have "2 powr of_int \<lfloor>log 2 \<bar>x\<bar>\<rfloor> \<le> \<bar>x\<bar>"
    using pos floor_log_eq_powr_iff [of "\<bar>x\<bar>" 2 "\<lfloor>log 2 \<bar>x\<bar>\<rfloor>"] by simp
  moreover have "ulp x \<le> 2 powr of_int \<lfloor>log 2 \<bar>x\<bar>\<rfloor>"
    unfolding ulp_def b by simp
  ultimately have "ulp x \<le> \<bar>x\<bar>"
    by linarith
  then show ?thesis
    using ulp_pos [of x] by simp
next
  case False
  then have "binade x = - 1022"
    by (simp add: binade_def)
  then have "ulp x = 2 powr (- 1074)"
    by (simp add: ulp_def)
  with assms show ?thesis
    using ulp_pos [of x] by simp
qed

text \<open>Gradual underflow: a magnitude of at least the smallest subnormal
  does not round to zero.\<close>

lemma rnd_pos:
  assumes "2 powr (- 1074) \<le> x"
  shows "0 < rnd x"
proof -
  have pos: "0 < x"
    using assms powr_gt_zero [of 2 "- 1074"] by linarith
  then have "1 \<le> x / ulp x"
    using quot_ulp_ge_1 [of x] assms by simp
  then have "1 \<le> round_half_even (x / ulp x)"
    by (rule round_half_even_pos)
  then have "0 < real_of_int (round_half_even (x / ulp x)) * ulp x"
    using ulp_pos [of x] by simp
  with pos show ?thesis
    by (simp add: rnd_def)
qed

lemma rnd_neg:
  assumes "x \<le> - (2 powr (- 1074))"
  shows "rnd x < 0"
proof -
  have neg: "x < 0"
    using assms powr_gt_zero [of 2 "- 1074"] by linarith
  then have "1 \<le> \<bar>x\<bar> / ulp x"
    using quot_ulp_ge_1 [of x] assms by simp
  with neg have "x / ulp x \<le> - 1"
    by simp
  then have "round_half_even (x / ulp x) \<le> - 1"
    by (rule round_half_even_neg)
  then have "real_of_int (round_half_even (x / ulp x)) * ulp x < 0"
    using ulp_pos [of x] by (simp add: mult_neg_pos)
  with neg show ?thesis
    by (simp add: rnd_def)
qed

text \<open>Every binary64 value is an integer multiple of the smallest
  subnormal, so two different ones are at least that far apart.\<close>

lemma double_grid:
  assumes "rnd v = v"
  shows "\<exists>n::int. v = of_int n * 2 powr (- 1074)"
proof (cases "v = 0")
  case True
  then show ?thesis
    by (intro exI [of _ 0]) simp
next
  case False
  define k where "k = binade v - 52"
  have k: "- 1074 \<le> k"
    by (simp add: k_def binade_def)
  define j where "j = nat (k + 1074)"
  have "(2::real) powr of_int k = 2 powr (real j + (- 1074))"
    using k by (simp add: j_def)
  also have "\<dots> = 2 ^ j * 2 powr (- 1074)"
    by (simp only: powr_add) (simp add: powr_realpow)
  finally have u: "ulp v = 2 ^ j * 2 powr (- 1074)"
    by (simp add: ulp_def k_def)
  from assms False have "v = of_int (round_half_even (v / ulp v)) * ulp v"
    by (simp add: rnd_def)
  then have "v = of_int (round_half_even (v / ulp v) * 2 ^ j) * 2 powr (- 1074)"
    using u by simp
  then show ?thesis ..
qed

lemma double_gap:
  assumes "rnd a = a" and "rnd b = b" and "b < a"
  shows "2 powr (- 1074) \<le> a - b"
proof -
  from double_grid [OF assms(1)] obtain n :: int where n: "a = of_int n * 2 powr (- 1074)" ..
  from double_grid [OF assms(2)] obtain m :: int where m: "b = of_int m * 2 powr (- 1074)" ..
  have p: "0 < (2::real) powr (- 1074)"
    by simp
  from assms(3) n m p have "m < n"
    by (simp add: mult_less_cancel_right)
  then have "1 \<le> real_of_int (n - m)"
    by simp
  then have "1 * 2 powr (- 1074) \<le> real_of_int (n - m) * 2 powr (- 1074)"
    using p by (simp only: mult_le_cancel_right) simp
  then show ?thesis
    using n m by (simp add: algebra_simps)
qed

subsection \<open>Arithmetic at the literals used below\<close>

lemma M_PI_pos: "0 < M_PI"
  by (simp add: M_PI_def)

lemma M_PI_ge_2: "2 \<le> M_PI"
  by (simp add: M_PI_def)

lemma rnd_1: "rnd 1 = 1"
  using rnd_binade [of 0 1] by (simp add: rnd_eval_simps)

lemma rnd_2: "rnd 2 = 2"
  using rnd_binade [of 1 2] by (simp add: rnd_eval_simps)

lemma rnd_minus_2: "rnd (- 2) = - 2"
  using rnd_binade [of 1 "- 2"] by (simp add: rnd_eval_simps)

lemma rnd_M_PI: "rnd M_PI = M_PI"
  using rnd_binade [of 1 M_PI] by (simp add: M_PI_def rnd_eval_simps)

lemma rnd_minus_M_PI: "rnd (- M_PI) = - M_PI"
  using rnd_binade [of 1 "- M_PI"] by (simp add: M_PI_def rnd_eval_simps)

lemma rnd_two_M_PI: "rnd (2 * M_PI) = 2 * M_PI"
  using rnd_binade [of 2 "2 * M_PI"] by (simp add: M_PI_def rnd_eval_simps)

lemma rnd_minus_two_M_PI: "rnd (- (2 * M_PI)) = - (2 * M_PI)"
  using rnd_binade [of 2 "- (2 * M_PI)"] by (simp add: M_PI_def rnd_eval_simps)

lemma rnd_2_minus_M_PI: "rnd (2 - M_PI) = 2 - M_PI"
  using rnd_binade [of 0 "2 - M_PI"] by (simp add: M_PI_def rnd_eval_simps)

lemma rnd_two_M_PI_minus_2: "rnd (2 * M_PI - 2) = 2 * M_PI - 2"
  using rnd_binade [of 2 "2 * M_PI - 2"] by (simp add: M_PI_def rnd_eval_simps)

lemma dsub_0_2: "dsub 0 2 = - 2"
  using rnd_minus_2 by (simp add: dsub_def)

lemma dadd_0_M_PI: "dadd 0 M_PI = M_PI"
  using rnd_M_PI by (simp add: dadd_def)

lemma dsub_2_M_PI: "dsub 2 M_PI = 2 - M_PI"
  using rnd_2_minus_M_PI by (simp add: dsub_def)

lemma dsub_M_PI_2_M_PI: "dsub M_PI (2 - M_PI) = 2 * M_PI - 2"
  using rnd_two_M_PI_minus_2 by (simp add: dsub_def)

lemma dmul_2_M_PI: "dmul 2 M_PI = 2 * M_PI"
  using rnd_two_M_PI by (simp add: dmul_def)

text \<open>The forward distances from 2 to 0, from 1 to 2 and from 0 to 1.\<close>

lemma PositiveDistance_2_0: "PositiveDistance 2 0 = 2 * M_PI - 2"
  by (simp add: PositiveDistance_def dsub_0_2 dadd_0_M_PI dsub_2_M_PI dsub_M_PI_2_M_PI)

lemma PositiveDistance_1_2: "PositiveDistance 1 2 = 1"
  using rnd_1 by (simp add: PositiveDistance_def dsub_def)


lemma is_double_literals:
  "is_double 0" "is_double 1" "is_double 2" "is_double (- 1)" "is_double M_PI" "is_double (- M_PI)"
  using rnd_1 rnd_2 rnd_M_PI rnd_minus_M_PI rnd_binade [of 0 "- 1"]
  by (simp_all add: is_double_def M_PI_def rnd_eval_simps)

lemmas interval_defs =
  is_valid_def is_full_def is_empty_def is_inverted_def Empty_def Full_def
  FastContains_def Contains_def Intersects_def Complement_def

lemma Empty_contains_only_empty:
  assumes "is_valid y" and "Contains Empty y"
  shows "is_empty y"
  using assms M_PI_pos by (auto simp: interval_defs split: if_splits)

lemma contains_Empty:
  assumes "is_valid x"
  shows "Contains x Empty"
  using assms M_PI_pos by (auto simp: interval_defs)






subsection \<open>GetLength\<close>

text \<open>What \<open>GetLength\<close> computes on binary64 endpoints, case by case.\<close>

lemma GetLength_binary64_cases:
  assumes "is_valid x" and "is_double (lo x)" and "is_double (hi x)"
  shows "(\<not> is_inverted x \<longrightarrow> GetLength x = dsub (hi x) (lo x))
       \<and> (is_inverted x \<longrightarrow> GetLength x =
            (if 0 < dadd (dsub (hi x) (lo x)) (2 * M_PI)
             then dadd (dsub (hi x) (lo x)) (2 * M_PI) else - 1))
       \<and> (is_empty x \<longrightarrow> GetLength x = - 1)
       \<and> (lo x = hi x \<longrightarrow> GetLength x = 0)
       \<and> (is_full x \<longrightarrow> GetLength x = 2 * M_PI)"
proof (intro conjI impI)
  assume "\<not> is_inverted x"
  then have "0 \<le> dsub (hi x) (lo x)"
    unfolding dsub_def by (intro rnd_nonneg) (simp add: is_inverted_def)
  then show "GetLength x = dsub (hi x) (lo x)"
    by (simp add: GetLength_def)
next
  assume "is_inverted x"
  then have "2 powr (- 1074) \<le> lo x - hi x"
    using assms(2,3) double_gap [of "lo x" "hi x"] by (simp add: is_inverted_def is_double_def)
  then have "dsub (hi x) (lo x) < 0"
    unfolding dsub_def by (intro rnd_neg) simp
  then show "GetLength x =
      (if 0 < dadd (dsub (hi x) (lo x)) (2 * M_PI)
       then dadd (dsub (hi x) (lo x)) (2 * M_PI) else - 1)"
    by (simp add: GetLength_def dmul_2_M_PI Let_def)
next
  assume "is_empty x"
  then have "dsub (hi x) (lo x) = - (2 * M_PI)"
    using rnd_minus_two_M_PI by (simp add: is_empty_def dsub_def)
  moreover have "dadd (- (2 * M_PI)) (2 * M_PI) = 0"
    by (simp add: dadd_def)
  ultimately show "GetLength x = - 1"
    using M_PI_pos by (simp add: GetLength_def dmul_2_M_PI)
next
  assume "lo x = hi x"
  then show "GetLength x = 0"
    by (simp add: GetLength_def dsub_def)
next
  assume "is_full x"
  then have "dsub (hi x) (lo x) = 2 * M_PI"
    using rnd_two_M_PI by (simp add: is_full_def dsub_def)
  then show "GetLength x = 2 * M_PI"
    using M_PI_pos by (simp add: GetLength_def)
qed

text \<open>
  Claim C5.  \<open>GetLength\<close> is to return \<open>hi - lo + 2\<pi>\<close> for an inverted
  interval that is not empty, and \<open>-1\<close> for the empty interval only.  At the
  valid, inverted, non-empty interval \<open>[M_PI, -M_PI + 2\<^sup>-\<^sup>5\<^sup>1]\<close>, whose \<open>hi\<close>
  is the binary64 value next to \<open>-M_PI\<close>, the difference \<open>hi - lo\<close> lies
  halfway between two binary64 values and rounds to \<open>-2 \<cdot> M_PI\<close>; the sum
  with \<open>2 \<cdot> M_PI\<close> is \<open>0\<close>, the test \<open>length > 0\<close> fails, and the function
  returns \<open>-1\<close>, the length of the empty interval.  The exact value of
  \<open>hi - lo + 2 \<cdot> M_PI\<close> is \<open>2\<^sup>-\<^sup>5\<^sup>1\<close>.
\<close>

theorem C5_GetLength_nonempty_returns_minus_one:
  "is_valid \<lparr>lo = M_PI, hi = - M_PI + 1 / 2 ^ 51\<rparr>
   \<and> is_double M_PI \<and> is_double (- M_PI + 1 / 2 ^ 51)
   \<and> is_inverted \<lparr>lo = M_PI, hi = - M_PI + 1 / 2 ^ 51\<rparr>
   \<and> \<not> is_empty \<lparr>lo = M_PI, hi = - M_PI + 1 / 2 ^ 51\<rparr>
   \<and> GetLength \<lparr>lo = M_PI, hi = - M_PI + 1 / 2 ^ 51\<rparr> = - 1
   \<and> (- M_PI + 1 / 2 ^ 51) - M_PI + 2 * M_PI = 1 / 2 ^ 51"
proof -
  define h :: real where "h = - M_PI + 1 / 2 ^ 51"
  have h: "h < 0" "- M_PI < h"
    by (simp_all add: h_def M_PI_def)
  have "rnd h = h"
    unfolding h_def using rnd_binade [of 1 "- M_PI + 1 / 2 ^ 51"]
    by (simp add: M_PI_def rnd_eval_simps)
  then have dh: "is_double h"
    by (simp add: is_double_def) (simp add: h_def M_PI_def)
  have tie: "dsub h M_PI = - (2 * M_PI)"
    unfolding dsub_def h_def using rnd_binade [of 2 "- M_PI + 1 / 2 ^ 51 - M_PI"]
    by (simp add: M_PI_def rnd_eval_simps)
  have sum: "dadd (- (2 * M_PI)) (2 * M_PI) = 0"
    by (simp add: dadd_def)
  have len: "GetLength \<lparr>lo = M_PI, hi = h\<rparr> = - 1"
    using M_PI_pos by (simp add: GetLength_def tie dmul_2_M_PI sum)
  have main:
    "is_valid \<lparr>lo = M_PI, hi = h\<rparr>
     \<and> is_double M_PI \<and> is_double h
     \<and> is_inverted \<lparr>lo = M_PI, hi = h\<rparr>
     \<and> \<not> is_empty \<lparr>lo = M_PI, hi = h\<rparr>
     \<and> GetLength \<lparr>lo = M_PI, hi = h\<rparr> = - 1
     \<and> h - M_PI + 2 * M_PI = 1 / 2 ^ 51"
    using h dh M_PI_pos is_double_literals(5) len
    by (simp add: is_valid_def is_inverted_def is_empty_def) (simp add: h_def)
  show ?thesis
    using main unfolding h_def .
qed

subsection \<open>Complement\<close>

text \<open>
  Claim C6.  \<open>Complement\<close> of a singleton (\<open>lo = hi\<close>) is \<open>Full\<close>; of any
  other interval it is the interval with the endpoints swapped; the
  complement of \<open>Full\<close> is \<open>Empty\<close> and the complement of \<open>Empty\<close> is
  \<open>Full\<close>.
\<close>

theorem C6_Complement_cases:
  assumes "is_valid x"
  shows "(lo x = hi x \<longrightarrow> Complement x = Full)
       \<and> (lo x \<noteq> hi x \<longrightarrow> Complement x = \<lparr>lo = hi x, hi = lo x\<rparr>)
       \<and> Complement Full = Empty
       \<and> Complement Empty = Full"
proof -
  have "M_PI \<noteq> - M_PI"
    using M_PI_pos by simp
  then show ?thesis
    by (simp add: Complement_def Full_def Empty_def)
qed

theorem C6_Complement_cases_witness:
  "is_valid \<lparr>lo = 0, hi = 1\<rparr>
   \<and> Complement \<lparr>lo = 0, hi = 1\<rparr> = \<lparr>lo = 1, hi = 0\<rparr>
   \<and> Complement Full = Empty \<and> Complement Empty = Full"
  using C6_Complement_cases [of "\<lparr>lo = 0, hi = 1\<rparr>"] M_PI_ge_2
  by (simp add: is_valid_def)

subsection \<open>Containment and intersection predicates\<close>

text \<open>
  Claim C9.  \<open>Intersects\<close> is commutative on valid intervals:
  \<open>x.Intersects(y) = y.Intersects(x)\<close>.
\<close>

theorem C9_Intersects_commutes:
  assumes "is_valid x" and "is_valid y"
  shows "Intersects x y = Intersects y x"
proof (cases "is_empty x \<or> is_empty y")
  case True
  then show ?thesis
    by (auto simp: Intersects_def)
next
  case False
  then show ?thesis
    by (cases "is_inverted x"; cases "is_inverted y") (auto simp: Intersects_def)
qed

theorem C9_Intersects_commutes_witness:
  "is_valid \<lparr>lo = 0, hi = 1\<rparr> \<and> is_valid \<lparr>lo = 1, hi = - 1\<rparr>
   \<and> Intersects \<lparr>lo = 0, hi = 1\<rparr> \<lparr>lo = 1, hi = - 1\<rparr>
   \<and> Intersects \<lparr>lo = 1, hi = - 1\<rparr> \<lparr>lo = 0, hi = 1\<rparr>"
  using C9_Intersects_commutes [of "\<lparr>lo = 0, hi = 1\<rparr>" "\<lparr>lo = 1, hi = - 1\<rparr>"] M_PI_ge_2
  by (simp add: is_valid_def Intersects_def is_empty_def is_inverted_def)

text \<open>
  Claim C10.  Every valid interval contains the empty interval, and the
  empty interval contains a (valid) interval \<open>y\<close> only when \<open>y\<close> is the
  empty sentinel itself.
\<close>

theorem C10_Contains_Empty:
  assumes "is_valid x" and "is_valid y"
  shows "Contains x Empty \<and> (Contains Empty y \<longrightarrow> y = Empty)"
proof
  show "Contains x Empty"
    using assms(1) by (rule contains_Empty)
next
  show "Contains Empty y \<longrightarrow> y = Empty"
  proof
    assume "Contains Empty y"
    with assms(2) have "is_empty y"
      by (rule Empty_contains_only_empty)
    then show "y = Empty"
      by (simp add: is_empty_def Empty_def)
  qed
qed

theorem C10_Contains_Empty_witness:
  "is_valid \<lparr>lo = 0, hi = 1\<rparr> \<and> is_valid Empty
   \<and> Contains \<lparr>lo = 0, hi = 1\<rparr> Empty \<and> Contains Empty Empty"
  using C10_Contains_Empty [of "\<lparr>lo = 0, hi = 1\<rparr>" Empty] M_PI_ge_2
  by (simp add: is_valid_def Empty_def Contains_def is_inverted_def)

subsection \<open>Directed Hausdorff distance\<close>

text \<open>
  Claim C2.  For valid intervals, \<open>x.GetDirectedHausdorffDistance(y)\<close>
  returns \<open>0\<close> whenever \<open>y\<close> contains \<open>x\<close>, in particular whenever \<open>x\<close> is
  empty, and returns \<open>\<pi>\<close> whenever \<open>y\<close> is empty and \<open>x\<close> is not.
\<close>

theorem C2_Hausdorff_contract:
  assumes "is_valid x" and "is_valid y"
  shows "(Contains y x \<longrightarrow> GetDirectedHausdorffDistance x y = Some 0)
       \<and> (is_empty x \<longrightarrow> GetDirectedHausdorffDistance x y = Some 0)
       \<and> (is_empty y \<and> \<not> is_empty x \<longrightarrow> GetDirectedHausdorffDistance x y = Some M_PI)"
proof (intro conjI impI)
  assume "Contains y x"
  then show "GetDirectedHausdorffDistance x y = Some 0"
    by (simp add: GetDirectedHausdorffDistance_def)
next
  assume "is_empty x"
  then have "x = Empty"
    by (simp add: is_empty_def Empty_def)
  with assms(2) have "Contains y x"
    by (simp add: contains_Empty)
  then show "GetDirectedHausdorffDistance x y = Some 0"
    by (simp add: GetDirectedHausdorffDistance_def)
next
  assume e: "is_empty y \<and> \<not> is_empty x"
  then have "y = Empty"
    by (simp add: is_empty_def Empty_def)
  with assms(1) e have "\<not> Contains y x"
    using Empty_contains_only_empty by blast
  with e show "GetDirectedHausdorffDistance x y = Some M_PI"
    by (simp add: GetDirectedHausdorffDistance_def)
qed

theorem C2_Hausdorff_contract_witness:
  "is_valid \<lparr>lo = 0, hi = 1\<rparr> \<and> is_valid Empty
   \<and> is_empty Empty \<and> \<not> is_empty \<lparr>lo = 0, hi = 1\<rparr>
   \<and> Contains \<lparr>lo = 0, hi = 1\<rparr> Empty
   \<and> GetDirectedHausdorffDistance \<lparr>lo = 0, hi = 1\<rparr> Empty = Some M_PI
   \<and> GetDirectedHausdorffDistance Empty \<lparr>lo = 0, hi = 1\<rparr> = Some 0"
  using C2_Hausdorff_contract [of "\<lparr>lo = 0, hi = 1\<rparr>" Empty]
    C2_Hausdorff_contract [of Empty "\<lparr>lo = 0, hi = 1\<rparr>"] M_PI_ge_2
  by (simp add: is_valid_def Empty_def is_empty_def Contains_def is_inverted_def)

subsection \<open>AddPoint and Project\<close>

lemma PositiveDistance_M_PI_minus_M_PI: "PositiveDistance M_PI (- M_PI) = 0"
proof -
  have "dsub (- M_PI) M_PI = - (2 * M_PI)"
    using rnd_minus_two_M_PI by (simp add: dsub_def)
  moreover have "dadd (- M_PI) M_PI = 0" and "dsub M_PI M_PI = 0" and "dsub 0 0 = 0"
    by (simp_all add: dadd_def dsub_def)
  ultimately show ?thesis
    using M_PI_pos by (simp add: PositiveDistance_def)
qed

lemma PositiveDistance_to_M_PI_pos:
  assumes "is_double h" and "h < M_PI"
  shows "0 < PositiveDistance h M_PI"
proof -
  from assms(1) have "rnd h = h"
    by (simp add: is_double_def)
  with assms(2) have "2 powr (- 1074) \<le> M_PI - h"
    using double_gap [OF rnd_M_PI] by simp
  then have "0 < dsub M_PI h"
    unfolding dsub_def by (rule rnd_pos)
  then show ?thesis
    by (simp add: PositiveDistance_def)
qed

text \<open>
  Claim C7.  For a valid interval \<open>x\<close> that is not full and a point \<open>p\<close>
  with \<open>|p| \<le> \<pi>\<close>, \<open>AddPoint\<close> succeeds and the interval it leaves is
  not the full interval.  The endpoint \<open>hi\<close> of \<open>x\<close> is a binary64 value,
  as every field of the C++ class is.
\<close>

theorem C7_AddPoint_never_full:
  assumes "is_valid x" and "is_double (hi x)" and "\<not> is_full x" and "\<bar>p\<bar> \<le> M_PI"
  shows "\<exists>r. AddPoint x p = Some r \<and> \<not> is_full r"
proof -
  define q where "q = (if p = - M_PI then M_PI else p)"
  have q: "q \<noteq> - M_PI"
    using M_PI_pos by (simp add: q_def)
  have lo_case: "\<not> is_full (x\<lparr>lo := q\<rparr>)"
    using q by (simp add: is_full_def)
  have single: "\<not> is_full ((x\<lparr>hi := q\<rparr>)\<lparr>lo := q\<rparr>)"
    using q by (simp add: is_full_def)
  have hi_case: "\<not> is_full (x\<lparr>hi := q\<rparr>)"
    if "\<not> PositiveDistance q (lo x) < PositiveDistance (hi x) q"
  proof
    assume "is_full (x\<lparr>hi := q\<rparr>)"
    then have l: "lo x = - M_PI" and h: "q = M_PI"
      by (simp_all add: is_full_def)
    from l h have "PositiveDistance q (lo x) = 0"
      by (simp add: PositiveDistance_M_PI_minus_M_PI)
    with that h have "\<not> 0 < PositiveDistance (hi x) M_PI"
      by simp
    with assms(2) have "\<not> hi x < M_PI"
      using PositiveDistance_to_M_PI_pos by blast
    with assms(1) have "hi x = M_PI"
      by (auto simp: is_valid_def)
    with l assms(3) show False
      by (simp add: is_full_def)
  qed
  show ?thesis
    using assms(3,4) lo_case single hi_case
    by (auto simp: AddPoint_def Let_def q_def)
qed

theorem C7_AddPoint_never_full_witness:
  "is_valid \<lparr>lo = 0, hi = 1\<rparr> \<and> is_double (hi \<lparr>lo = 0, hi = 1\<rparr>)
   \<and> \<not> is_full \<lparr>lo = 0, hi = 1\<rparr> \<and> \<bar>2\<bar> \<le> M_PI
   \<and> AddPoint \<lparr>lo = 0, hi = 1\<rparr> 2 = Some \<lparr>lo = 0, hi = 2\<rparr>
   \<and> \<not> is_full \<lparr>lo = 0, hi = 2\<rparr>"
  using C7_AddPoint_never_full [of "\<lparr>lo = 0, hi = 1\<rparr>" 2] M_PI_ge_2 is_double_literals(2)
  by (simp add: is_valid_def is_full_def AddPoint_def FastContains_def
      is_inverted_def is_empty_def PositiveDistance_2_0 PositiveDistance_1_2)

text \<open>
  Claim C8 (as amended).  For a valid non-empty interval \<open>x\<close> and a point
  \<open>p\<close> with \<open>|p| \<le> \<pi>\<close>, if \<open>x.Contains(p)\<close> then \<open>x.Project(p)\<close> is the
  canonical form of \<open>p\<close>: \<open>p\<close> itself when \<open>p \<noteq> -\<pi>\<close>, and \<open>\<pi>\<close> when
  \<open>p = -\<pi>\<close>.
\<close>

theorem C8_Project_contained:
  assumes "is_valid x" and "\<not> is_empty x" and "\<bar>p\<bar> \<le> M_PI"
    and "Contains_point x p = Some True"
  shows "Project x p = Some (if p = - M_PI then M_PI else p)"
  using assms by (simp add: Project_def Contains_point_def Let_def split: if_splits)

theorem C8_Project_contained_witness:
  "is_valid \<lparr>lo = 1, hi = - 1\<rparr> \<and> \<not> is_empty \<lparr>lo = 1, hi = - 1\<rparr>
   \<and> \<bar>- M_PI\<bar> \<le> M_PI
   \<and> Contains_point \<lparr>lo = 1, hi = - 1\<rparr> (- M_PI) = Some True
   \<and> Project \<lparr>lo = 1, hi = - 1\<rparr> (- M_PI) = Some M_PI"
  using C8_Project_contained [of "\<lparr>lo = 1, hi = - 1\<rparr>" "- M_PI"] M_PI_ge_2
  by (simp add: is_valid_def is_empty_def Contains_point_def FastContains_def is_inverted_def)

text \<open>
  Claim C8 as first stated, \<open>x.Project(p) = p\<close>, fails at the point
  \<open>p = -\<pi>\<close> of the full interval: the point is contained, and its
  projection is \<open>\<pi>\<close>.
\<close>

theorem C8_Project_counterexample:
  "is_valid Full \<and> \<not> is_empty Full \<and> \<bar>- M_PI\<bar> \<le> M_PI
   \<and> Contains_point Full (- M_PI) = Some True
   \<and> Project Full (- M_PI) = Some M_PI
   \<and> Project Full (- M_PI) \<noteq> Some (- M_PI)"
  using M_PI_pos
  by (simp add: is_valid_def Full_def is_empty_def Contains_point_def Project_def
      FastContains_def is_inverted_def)

subsection \<open>Union and Intersection\<close>

text \<open>
  Claim C1 (as amended).  For a valid interval \<open>x\<close> and a non-empty
  interval \<open>y\<close> of which \<open>x\<close> contains exactly one endpoint: if only
  \<open>y.lo\<close> is contained then \<open>x.Union(y)\<close> is \<open>{x.lo, y.hi}\<close>, and if only
  \<open>y.hi\<close> is contained then \<open>x.Union(y)\<close> is \<open>{y.lo, x.hi}\<close>.
\<close>

theorem C1_Union_one_endpoint:
  assumes "is_valid x" and "\<not> is_empty y"
  shows "(FastContains x (lo y) \<and> \<not> FastContains x (hi y)
            \<longrightarrow> Union_interval x y = \<lparr>lo = lo x, hi = hi y\<rparr>)
       \<and> (\<not> FastContains x (lo y) \<and> FastContains x (hi y)
            \<longrightarrow> Union_interval x y = \<lparr>lo = lo y, hi = hi x\<rparr>)"
  using assms(2) by (simp add: Union_interval_def)

theorem C1_Union_one_endpoint_witness:
  "is_valid \<lparr>lo = 0, hi = 1\<rparr> \<and> \<not> is_empty \<lparr>lo = 1, hi = 2\<rparr>
   \<and> FastContains \<lparr>lo = 0, hi = 1\<rparr> 1 \<and> \<not> FastContains \<lparr>lo = 0, hi = 1\<rparr> 2
   \<and> Union_interval \<lparr>lo = 0, hi = 1\<rparr> \<lparr>lo = 1, hi = 2\<rparr> = \<lparr>lo = 0, hi = 2\<rparr>
   \<and> is_valid \<lparr>lo = 1, hi = 2\<rparr> \<and> \<not> is_empty \<lparr>lo = 0, hi = 1\<rparr>
   \<and> \<not> FastContains \<lparr>lo = 1, hi = 2\<rparr> 0 \<and> FastContains \<lparr>lo = 1, hi = 2\<rparr> 1
   \<and> Union_interval \<lparr>lo = 1, hi = 2\<rparr> \<lparr>lo = 0, hi = 1\<rparr> = \<lparr>lo = 0, hi = 2\<rparr>"
  using C1_Union_one_endpoint [of "\<lparr>lo = 0, hi = 1\<rparr>" "\<lparr>lo = 1, hi = 2\<rparr>"]
    C1_Union_one_endpoint [of "\<lparr>lo = 1, hi = 2\<rparr>" "\<lparr>lo = 0, hi = 1\<rparr>"] M_PI_ge_2
  by (simp add: is_valid_def is_empty_def FastContains_def is_inverted_def)

text \<open>
  Claim C1 as first stated pairs the cases the other way round.  At
  \<open>x = [0, 1]\<close>, \<open>y = [1, 2]\<close> only \<open>y.lo\<close> is contained and the union is
  \<open>{x.lo, y.hi} = [0, 2]\<close>, not \<open>{y.lo, x.hi} = [1, 1]\<close>.  With the empty
  interval as \<open>y\<close> and \<open>x = [0, \<pi>]\<close>, only \<open>y.lo = \<pi>\<close> is contained and
  the union is \<open>x\<close>, which is neither candidate.
\<close>

theorem C1_Union_counterexample:
  "is_valid \<lparr>lo = 0, hi = 1\<rparr>
   \<and> FastContains \<lparr>lo = 0, hi = 1\<rparr> (lo \<lparr>lo = 1, hi = 2\<rparr>)
   \<and> \<not> FastContains \<lparr>lo = 0, hi = 1\<rparr> (hi \<lparr>lo = 1, hi = 2\<rparr>)
   \<and> Union_interval \<lparr>lo = 0, hi = 1\<rparr> \<lparr>lo = 1, hi = 2\<rparr>
       \<noteq> \<lparr>lo = lo \<lparr>lo = 1, hi = 2\<rparr>, hi = hi \<lparr>lo = 0, hi = 1\<rparr>\<rparr>
   \<and> is_valid \<lparr>lo = 0, hi = M_PI\<rparr>
   \<and> FastContains \<lparr>lo = 0, hi = M_PI\<rparr> (lo Empty)
   \<and> \<not> FastContains \<lparr>lo = 0, hi = M_PI\<rparr> (hi Empty)
   \<and> Union_interval \<lparr>lo = 0, hi = M_PI\<rparr> Empty \<noteq> \<lparr>lo = lo Empty, hi = M_PI\<rparr>
   \<and> Union_interval \<lparr>lo = 0, hi = M_PI\<rparr> Empty \<noteq> \<lparr>lo = 0, hi = hi Empty\<rparr>"
  using M_PI_ge_2
  by (simp add: is_valid_def Empty_def is_empty_def FastContains_def is_inverted_def
      Union_interval_def)









end
